theory Spec2Isabelle
  imports Complex_Main
begin

section \<open>Data model\<close>

text \<open>
  The pages under \<^verbatim>\<open>frontend/src/pages\<close> import their types from
  \<^verbatim>\<open>../types\<close>, which is not among the sources. The records below carry the
  fields the pages read. JavaScript numbers that count things (identifiers, stock,
  quantities) are integers here; prices and money amounts are exact rationals, so the
  rounding of IEEE doubles and of \<^verbatim>\<open>toFixed(2)\<close> is outside the model.
\<close>

datatype role = Admin | Baker | Delivery_person | Customer

text \<open>Modelled from the spec: the \<^verbatim>\<open>Category\<close> type (identifier, name).\<close>

record category =
  category_id :: int
  category_name :: string

text \<open>
  Modelled from the spec: the \<^verbatim>\<open>Product\<close> type, with the field names the
  pages use (\<^verbatim>\<open>product.id\<close> is \<open>product_id\<close>).
\<close>

record product =
  product_id :: int
  name :: string
  description :: "string option"
  price :: rat
  image_url :: "string option"
  stock_quantity :: int
  is_available :: bool
  baker_id :: int
  category :: "category option"

text \<open>
  Modelled from the spec: the \<^verbatim>\<open>User\<close> type, with the field names the
  pages use (\<^verbatim>\<open>user.id\<close> is \<open>user_id\<close>).
\<close>

record user =
  user_id :: int
  full_name :: string
  email :: string
  username :: string
  role :: role
  phone :: "string option"
  address :: "string option"
  is_active :: bool
  created_at :: string

text \<open>
  \<^verbatim>\<open>Partial<User>\<close>: every field may be absent. The identifier and the creation
  time are never sent by the pages.
\<close>

record user_partial =
  set_full_name :: "string option"
  set_email :: "string option"
  set_username :: "string option"
  set_role :: "role option"
  set_phone :: "string option"
  set_address :: "string option"
  set_is_active :: "bool option"

text \<open>The element type of the cart: \<^verbatim>\<open>{ product: Product; quantity: number }\<close>.\<close>

record cart_item =
  product :: product
  quantity :: int

text \<open>The checkout form's values and the request built from them.\<close>

record order_data =
  delivery_address :: string
  delivery_instructions :: "string option"

record order_item =
  product_name :: string
  ordered_quantity :: int

record order_request = order_data +
  items :: "order_item list"

text \<open>
  \<^verbatim>\<open>{ ...data, baker_email }\<close>: the product form's values, kept whole (the type
  \<^verbatim>\<open>ProductFormData\<close> is a parameter), and the baker's email beside them.
\<close>

record 'd with_baker =
  form_data :: 'd
  baker_email :: string

text \<open>
  A promise of the backing service, settled: resolved with a value, or rejected with an
  \<^verbatim>\<open>Error\<close> whose \<^verbatim>\<open>message\<close> is the string.
\<close>

datatype 'a settled = Resolved 'a | Rejected string

datatype toast = Toast_success string | Toast_error string

datatype 'd api_call = Create_order order_request | Create_product "'d with_baker"

text \<open>\<^verbatim>\<open>ProductFilters\<close>, as the filter bar of the page sets it.\<close>

record product_filters =
  search :: "string option"
  filter_category_id :: "int option"
  min_price :: "rat option"
  max_price :: "rat option"
  in_stock :: "bool option"

text \<open>
  The state of \<^verbatim>\<open>ProductsPage\<close>: its \<^verbatim>\<open>useState\<close> cells, the checkout
  form, and three logs of what the page did to the outside: the notices shown, the query
  keys invalidated and the requests sent to the backing service, each in order.
\<close>

record 'd products_page =
  filters :: product_filters
  cart :: "cart_item list"
  showCart :: bool
  editingProduct :: "product option"
  showProductForm :: bool
  checkout_form :: "order_data option"
  toasts :: "toast list"
  invalidated :: "string list"
  api_calls :: "'d api_call list"

section \<open>ProductsPage\<close>

text \<open>\<^verbatim>\<open>a || b\<close> on strings: the empty string is falsy.\<close>

definition js_or :: "string \<Rightarrow> string \<Rightarrow> string" where
  "js_or a b = (if a = [] then b else a)"

definition toast_success :: "string \<Rightarrow> 'd products_page \<Rightarrow> 'd products_page" where
  "toast_success msg st = st\<lparr>toasts := toasts st @ [Toast_success msg]\<rparr>"

definition toast_error :: "string \<Rightarrow> 'd products_page \<Rightarrow> 'd products_page" where
  "toast_error msg st = st\<lparr>toasts := toasts st @ [Toast_error msg]\<rparr>"

definition invalidateQueries :: "string \<Rightarrow> 'd products_page \<Rightarrow> 'd products_page" where
  "invalidateQueries k st = st\<lparr>invalidated := invalidated st @ [k]\<rparr>"

text \<open>
  The updater \<^verbatim>\<open>addToCartMutation\<close> passes to \<^verbatim>\<open>setCart\<close>:
  \<^verbatim>\<open>find\<close> for a line of the product, then \<^verbatim>\<open>map\<close> or append.
\<close>

definition addToCart_updater :: "product \<Rightarrow> cart_item list \<Rightarrow> cart_item list" where
  "addToCart_updater p prevCart =
     (case find (\<lambda>item. product_id (product item) = product_id p) prevCart of
        Some existingItem \<Rightarrow>
          map (\<lambda>item. if product_id (product item) = product_id p
                       then item\<lparr>quantity := quantity item + 1\<rparr> else item) prevCart
      | None \<Rightarrow> prevCart @ [\<lparr>product = p, quantity = 1\<rparr>])"

text \<open>
  \<^verbatim>\<open>addToCartMutation.mutate\<close>: the mutation function updates the cart and
  resolves, so \<^verbatim>\<open>onSuccess\<close> always runs.
\<close>

definition addToCartMutation_mutate :: "product \<Rightarrow> 'd products_page \<Rightarrow> 'd products_page" where
  "addToCartMutation_mutate p st =
     toast_success ''Added to cart!'' (st\<lparr>cart := addToCart_updater p (cart st)\<rparr>)"

definition handleAddToCart :: "product \<Rightarrow> 'd products_page \<Rightarrow> 'd products_page" where
  "handleAddToCart p st =
     (if stock_quantity p > 0 then addToCartMutation_mutate p st
      else toast_error ''Product is out of stock'' st)"



definition handleRemoveFromCart :: "int \<Rightarrow> 'd products_page \<Rightarrow> 'd products_page" where
  "handleRemoveFromCart productId st =
     toast_success ''Removed from cart''
       (st\<lparr>cart := filter (\<lambda>item. product_id (product item) \<noteq> productId) (cart st)\<rparr>)"

text \<open>
  The quantity field calls the handler with \<^verbatim>\<open>parseInt(e.target.value)\<close>, the
  two buttons beside it with the line's quantity minus or plus 1. An emptied field gives
  \<^verbatim>\<open>NaN\<close>, which is not an integer and is outside the model.
\<close>

definition handleUpdateCartQuantity :: "int \<Rightarrow> int \<Rightarrow> 'd products_page \<Rightarrow> 'd products_page" where
  "handleUpdateCartQuantity productId newQuantity st =
     (if newQuantity < 1 then handleRemoveFromCart productId st
      else st\<lparr>cart := map (\<lambda>item. if product_id (product item) = productId
                                    then item\<lparr>quantity := newQuantity\<rparr> else item) (cart st)\<rparr>)"




text \<open>
  \<^verbatim>\<open>checkoutMutation\<close>: the request built from the cart, and the two callbacks.
  \<^verbatim>\<open>resetCheckout()\<close> empties the checkout form.
\<close>

definition checkout_request :: "order_data \<Rightarrow> cart_item list \<Rightarrow> order_request" where
  "checkout_request orderData c =
     \<lparr>delivery_address = delivery_address orderData,
      delivery_instructions = delivery_instructions orderData,
      items = map (\<lambda>item. \<lparr>product_name = name (product item),
                             ordered_quantity = quantity item\<rparr>) c\<rparr>"

definition checkout_onSuccess :: "'d products_page \<Rightarrow> 'd products_page" where
  "checkout_onSuccess st =
     (let st1 = invalidateQueries ''orders'' st;
          st2 = toast_success ''Order placed successfully!'' st1;
          st3 = st2\<lparr>cart := []\<rparr>;
          st4 = st3\<lparr>showCart := False\<rparr>
      in st4\<lparr>checkout_form := None\<rparr>)"

definition checkout_onError :: "string \<Rightarrow> 'd products_page \<Rightarrow> 'd products_page" where
  "checkout_onError message st = toast_error (js_or message ''Failed to place order'') st"

text \<open>
  \<^verbatim>\<open>checkoutMutation.mutate\<close> with the backing service's \<^verbatim>\<open>createOrder\<close> as
  a parameter: the request is sent, and the callback of the settled promise runs. No other
  event is interleaved between the request and its answer.
\<close>

definition checkoutMutation_mutate ::
  "(order_request \<Rightarrow> 'o settled) \<Rightarrow> order_data \<Rightarrow> 'd products_page \<Rightarrow> 'd products_page" where
  "checkoutMutation_mutate createOrder orderData st =
     (let req = checkout_request orderData (cart st);
          sent = st\<lparr>api_calls := api_calls st @ [Create_order req]\<rparr>
      in case createOrder req of
           Resolved order \<Rightarrow> checkout_onSuccess sent
         | Rejected message \<Rightarrow> checkout_onError message sent)"

definition handleCheckout ::
  "(order_request \<Rightarrow> 'o settled) \<Rightarrow> order_data \<Rightarrow> 'd products_page \<Rightarrow> 'd products_page" where
  "handleCheckout createOrder orderData st =
     (if length (cart st) = 0 then toast_error ''Your cart is empty'' st
      else checkoutMutation_mutate createOrder orderData st)"

text \<open>
  \<^verbatim>\<open>createProductMutation\<close> and \<^verbatim>\<open>handleCreateProduct\<close>, with the signed-in
  user of \<^verbatim>\<open>useAuth\<close> (or none) and the backing service's
  \<^verbatim>\<open>createProduct\<close> as parameters. \<^verbatim>\<open>user?.email\<close> of no user is
  \<^verbatim>\<open>undefined\<close>, which is falsy like the empty string.
\<close>

definition bakerEmail :: "user option \<Rightarrow> string" where
  "bakerEmail u =
     js_or (case u of None \<Rightarrow> [] | Some usr \<Rightarrow> email usr) ''default@baker.com''"

text \<open>
  \<^verbatim>\<open>reset()\<close> clears the product form, whose values the state does not hold.
\<close>

definition createProduct_onSuccess :: "'d products_page \<Rightarrow> 'd products_page" where
  "createProduct_onSuccess st =
     (let st1 = invalidateQueries ''products'' st;
          st2 = toast_success ''Product created successfully!'' st1
      in st2\<lparr>showProductForm := False\<rparr>)"

definition createProduct_onError :: "string \<Rightarrow> 'd products_page \<Rightarrow> 'd products_page" where
  "createProduct_onError message st = toast_error (js_or message ''Failed to create product'') st"

definition handleCreateProduct ::
  "user option \<Rightarrow> ('d with_baker \<Rightarrow> 'p settled) \<Rightarrow> 'd \<Rightarrow> 'd products_page \<Rightarrow> 'd products_page" where
  "handleCreateProduct u createProduct data st =
     (let productDataWithBaker = \<lparr>form_data = data, baker_email = bakerEmail u\<rparr>;
          sent = st\<lparr>api_calls := api_calls st @ [Create_product productDataWithBaker]\<rparr>
      in case createProduct productDataWithBaker of
           Resolved created \<Rightarrow> createProduct_onSuccess sent
         | Rejected message \<Rightarrow> createProduct_onError message sent)"

section \<open>AdminDashboard\<close>

datatype admin_call = Deactivate_user int | Update_user int user_partial

text \<open>
  The state of \<^verbatim>\<open>AdminDashboard\<close>: its \<^verbatim>\<open>useState\<close> cells and the same
  three logs as on the products page.
\<close>

record admin_dashboard =
  tabValue :: nat
  selectedUser :: "user option"
  userDialogOpen :: bool
  editingUser :: "user option"
  admin_toasts :: "toast list"
  admin_invalidated :: "string list"
  admin_calls :: "admin_call list"

text \<open>The object literal \<^verbatim>\<open>{ is_active: true }\<close>.\<close>

definition only_is_active_true :: user_partial where
  "only_is_active_true =
     \<lparr>set_full_name = None, set_email = None, set_username = None, set_role = None,
      set_phone = None, set_address = None, set_is_active = Some True\<rparr>"

definition deactivateUser_onSuccess :: "admin_dashboard \<Rightarrow> admin_dashboard" where
  "deactivateUser_onSuccess pg =
     (let pg1 = pg\<lparr>admin_invalidated := admin_invalidated pg @ [''admin-users'']\<rparr>;
          pg2 = pg1\<lparr>admin_toasts := admin_toasts pg1 @ [Toast_success ''User deactivated successfully!'']\<rparr>
      in pg2\<lparr>selectedUser := None\<rparr>)"

definition deactivateUser_onError :: "string \<Rightarrow> admin_dashboard \<Rightarrow> admin_dashboard" where
  "deactivateUser_onError message pg =
     pg\<lparr>admin_toasts := admin_toasts pg @ [Toast_error (js_or message ''Failed to deactivate user'')]\<rparr>"

definition updateUser_onSuccess :: "admin_dashboard \<Rightarrow> admin_dashboard" where
  "updateUser_onSuccess pg =
     (let pg1 = pg\<lparr>admin_invalidated := admin_invalidated pg @ [''admin-users'']\<rparr>;
          pg2 = pg1\<lparr>admin_toasts := admin_toasts pg1 @ [Toast_success ''User updated successfully!'']\<rparr>;
          pg3 = pg2\<lparr>editingUser := None\<rparr>
      in pg3\<lparr>userDialogOpen := False\<rparr>)"

definition updateUser_onError :: "string \<Rightarrow> admin_dashboard \<Rightarrow> admin_dashboard" where
  "updateUser_onError message pg =
     pg\<lparr>admin_toasts := admin_toasts pg @ [Toast_error (js_or message ''Failed to update user'')]\<rparr>"

text \<open>
  The two mutations, run against a backing service that owns a store of type \<open>'s\<close>:
  the service's operation is a parameter that answers with a settled promise and the
  store it leaves behind.
\<close>

definition deactivateUserMutation_mutate ::
  "(int \<Rightarrow> 's \<Rightarrow> unit settled \<times> 's) \<Rightarrow> int \<Rightarrow> admin_dashboard \<times> 's \<Rightarrow> admin_dashboard \<times> 's" where
  "deactivateUserMutation_mutate deactivateUser userId w =
     (let sent = (fst w)\<lparr>admin_calls := admin_calls (fst w) @ [Deactivate_user userId]\<rparr>
      in case deactivateUser userId (snd w) of
           (Resolved ok, store) \<Rightarrow> (deactivateUser_onSuccess sent, store)
         | (Rejected message, store) \<Rightarrow> (deactivateUser_onError message sent, store))"

definition updateUserMutation_mutate ::
  "(int \<Rightarrow> user_partial \<Rightarrow> 's \<Rightarrow> unit settled \<times> 's) \<Rightarrow> int \<Rightarrow> user_partial \<Rightarrow>
   admin_dashboard \<times> 's \<Rightarrow> admin_dashboard \<times> 's" where
  "updateUserMutation_mutate updateUser userId userData w =
     (let sent = (fst w)\<lparr>admin_calls := admin_calls (fst w) @ [Update_user userId userData]\<rparr>
      in case updateUser userId userData (snd w) of
           (Resolved ok, store) \<Rightarrow> (updateUser_onSuccess sent, store)
         | (Rejected message, store) \<Rightarrow> (updateUser_onError message sent, store))"

text \<open>
  The two handlers; \<open>confirmed\<close> is the answer of \<^verbatim>\<open>window.confirm\<close>.
\<close>

definition handleDeactivateUser ::
  "bool \<Rightarrow> (int \<Rightarrow> 's \<Rightarrow> unit settled \<times> 's) \<Rightarrow> int \<Rightarrow> admin_dashboard \<times> 's \<Rightarrow> admin_dashboard \<times> 's" where
  "handleDeactivateUser confirmed deactivateUser userId w =
     (if confirmed then deactivateUserMutation_mutate deactivateUser userId w else w)"

definition handleActivateUser ::
  "bool \<Rightarrow> (int \<Rightarrow> user_partial \<Rightarrow> 's \<Rightarrow> unit settled \<times> 's) \<Rightarrow> int \<Rightarrow>
   admin_dashboard \<times> 's \<Rightarrow> admin_dashboard \<times> 's" where
  "handleActivateUser confirmed updateUser userId w =
     (if confirmed then updateUserMutation_mutate updateUser userId only_is_active_true w else w)"

subsection \<open>The backing service's user operations\<close>

text \<open>
  Modelled from the spec: the backing service behind \<^verbatim>\<open>apiService\<close> (neither
  \<^verbatim>\<open>services/api\<close> nor the backend is among the sources). Its users are a map
  from identifier to user. \<^verbatim>\<open>deactivateUser(id)\<close> "sets active flag false";
  \<^verbatim>\<open>updateUser(id, partialData)\<close> is a partial update: a field that is present
  replaces the user's, a field that is absent leaves it. The spec does not say what an
  unknown identifier does; here the call is rejected and the store is left as it was.
\<close>

type_synonym user_store = "int \<Rightarrow> user option"

definition apply_partial :: "user_partial \<Rightarrow> user \<Rightarrow> user" where
  "apply_partial d u =
     u\<lparr>full_name := (case set_full_name d of None \<Rightarrow> full_name u | Some v \<Rightarrow> v),
        email := (case set_email d of None \<Rightarrow> email u | Some v \<Rightarrow> v),
        username := (case set_username d of None \<Rightarrow> username u | Some v \<Rightarrow> v),
        role := (case set_role d of None \<Rightarrow> role u | Some v \<Rightarrow> v),
        phone := (case set_phone d of None \<Rightarrow> phone u | Some v \<Rightarrow> Some v),
        address := (case set_address d of None \<Rightarrow> address u | Some v \<Rightarrow> Some v),
        is_active := (case set_is_active d of None \<Rightarrow> is_active u | Some v \<Rightarrow> v)\<rparr>"

definition service_deactivateUser :: "int \<Rightarrow> user_store \<Rightarrow> unit settled \<times> user_store" where
  "service_deactivateUser userId store =
     (case store userId of
        None \<Rightarrow> (Rejected ''User not found'', store)
      | Some u \<Rightarrow> (Resolved (), store(userId \<mapsto> u\<lparr>is_active := False\<rparr>)))"

definition service_updateUser :: "int \<Rightarrow> user_partial \<Rightarrow> user_store \<Rightarrow> unit settled \<times> user_store" where
  "service_updateUser userId d store =
     (case store userId of
        None \<Rightarrow> (Rejected ''User not found'', store)
      | Some u \<Rightarrow> (Resolved (), store(userId \<mapsto> apply_partial d u)))"

section \<open>The cart's invariant and example data\<close>

text \<open>
  The invariant of the spec's data model: every line's quantity is at least 1 and at
  most the stock of its product.
\<close>

definition cart_invariant :: "cart_item list \<Rightarrow> bool" where
  "cart_invariant c =
     list_all (\<lambda>item. 1 \<le> quantity item \<and> quantity item \<le> stock_quantity (product item)) c"

text \<open>Its lower half alone.\<close>

definition quantities_positive :: "cart_item list \<Rightarrow> bool" where
  "quantities_positive c = list_all (\<lambda>item. 1 \<le> quantity item) c"

text \<open>Products, users and pages for the concrete runs below.\<close>

definition pandesal :: product where
  "pandesal = \<lparr>product_id = 1, name = ''Pandesal'', description = None, price = 10,
     image_url = None, stock_quantity = 5, is_available = True, baker_id = 21, category = None\<rparr>"

definition ensaymada :: product where
  "ensaymada = \<lparr>product_id = 2, name = ''Ensaymada'', description = None, price = 25,
     image_url = None, stock_quantity = 8, is_available = True, baker_id = 21, category = None\<rparr>"


definition last_monay :: product where
  "last_monay = \<lparr>product_id = 4, name = ''Monay'', description = None, price = 8,
     image_url = None, stock_quantity = 1, is_available = True, baker_id = 21, category = None\<rparr>"


definition maria :: user where
  "maria = \<lparr>user_id = 11, full_name = ''Maria Santos'', email = ''maria@example.com'',
     username = ''maria'', role = Customer, phone = None, address = None, is_active = True,
     created_at = ''2024-01-01''\<rparr>"

definition ana :: user where
  "ana = \<lparr>user_id = 21, full_name = ''Ana Reyes'', email = ''ana@example.com'',
     username = ''ana'', role = Baker, phone = Some ''0917'', address = None, is_active = True,
     created_at = ''2024-01-02''\<rparr>"

definition nameless :: user where
  "nameless = \<lparr>user_id = 12, full_name = ''Walk-in baker'', email = [],
     username = ''walkin'', role = Baker, phone = None, address = None, is_active = True,
     created_at = ''2024-01-03''\<rparr>"

definition to_the_pier :: order_data where
  "to_the_pier = \<lparr>delivery_address = ''Pier 2, Bongao'', delivery_instructions = None\<rparr>"

definition page_with :: "cart_item list \<Rightarrow> unit products_page" where
  "page_with c = \<lparr>filters = \<lparr>search = None, filter_category_id = None, min_price = None,
       max_price = None, in_stock = None\<rparr>,
     cart = c, showCart = True, editingProduct = None, showProductForm = False,
     checkout_form = None, toasts = [], invalidated = [], api_calls = []\<rparr>"

definition bakery_users :: user_store where
  "bakery_users = Map.empty(21 \<mapsto> ana, 11 \<mapsto> maria)"

definition empty_dashboard :: admin_dashboard where
  "empty_dashboard = \<lparr>tabValue = 0, selectedUser = None, userDialogOpen = False,
     editingUser = None, admin_toasts = [], admin_invalidated = [], admin_calls = []\<rparr>"

section \<open>Helper lemmas\<close>

lemma cart_handleAddToCart:
  "cart (handleAddToCart p st) =
     (if stock_quantity p > 0 then addToCart_updater p (cart st) else cart st)"
  by (simp add: handleAddToCart_def addToCartMutation_mutate_def toast_success_def
      toast_error_def)

lemma find_present:
  "productId \<in> set (map (\<lambda>item. product_id (product item)) c) \<Longrightarrow>
   \<exists>existingItem. find (\<lambda>item. product_id (product item) = productId) c = Some existingItem"
  by (induction c) auto

lemma find_absent:
  "productId \<notin> set (map (\<lambda>item. product_id (product item)) c) \<Longrightarrow>
   find (\<lambda>item. product_id (product item) = productId) c = None"
  by (induction c) auto

lemma map_absent:
  "productId \<notin> set (map (\<lambda>item. product_id (product item)) c) \<Longrightarrow>
   map (\<lambda>item. if product_id (product item) = productId then f item else item) c = c"
  by (induction c) auto

lemma filter_absent:
  "productId \<notin> set (map (\<lambda>item. product_id (product item)) c) \<Longrightarrow>
   filter (\<lambda>item. product_id (product item) \<noteq> productId) c = c"
  by (induction c) auto



lemma checkout_onSuccess_fields:
  "cart (checkout_onSuccess st) = []"
  "showCart (checkout_onSuccess st) = False"
  "invalidated (checkout_onSuccess st) = invalidated st @ [''orders'']"
  "api_calls (checkout_onSuccess st) = api_calls st"
  by (simp_all add: checkout_onSuccess_def Let_def invalidateQueries_def toast_success_def)

subsection \<open>What the cart operations keep\<close>

text \<open>
  No cart operation makes a quantity fall below 1, and an update to a quantity below 1
  leaves no line for the product.
\<close>

lemma quantities_positive_addToCart_updater:
  "quantities_positive c \<Longrightarrow> quantities_positive (addToCart_updater p c)"
proof -
  assume pos: "quantities_positive c"
  have bumped: "quantities_positive
      (map (\<lambda>item. if product_id (product item) = product_id p
                    then item\<lparr>quantity := quantity item + 1\<rparr> else item) c)"
    using pos by (induction c) (auto simp: quantities_positive_def)
  have appended: "quantities_positive (c @ [\<lparr>product = p, quantity = 1\<rparr>])"
    using pos by (simp add: quantities_positive_def)
  show ?thesis
    using bumped appended by (simp add: addToCart_updater_def split: option.split)
qed

lemma quantities_positive_handleAddToCart:
  "quantities_positive (cart st) \<Longrightarrow> quantities_positive (cart (handleAddToCart p st))"
  by (simp add: cart_handleAddToCart quantities_positive_addToCart_updater)

lemma quantities_positive_handleRemoveFromCart:
  "quantities_positive (cart st) \<Longrightarrow>
   quantities_positive (cart (handleRemoveFromCart productId st))"
  by (simp add: handleRemoveFromCart_def toast_success_def quantities_positive_def list_all_iff)

lemma quantities_positive_handleUpdateCartQuantity:
  "quantities_positive (cart st) \<Longrightarrow>
   quantities_positive (cart (handleUpdateCartQuantity productId newQuantity st))"
proof (cases "newQuantity < 1")
  case True
  assume "quantities_positive (cart st)"
  with True show ?thesis
    by (simp add: handleUpdateCartQuantity_def quantities_positive_handleRemoveFromCart)
next
  case False
  assume "quantities_positive (cart st)"
  with False show ?thesis
    by (auto simp: handleUpdateCartQuantity_def quantities_positive_def list_all_iff)
qed

lemma quantities_positive_checkout_onSuccess:
  "quantities_positive (cart (checkout_onSuccess st))"
  by (simp add: checkout_onSuccess_fields quantities_positive_def)

lemma handleUpdateCartQuantity_below_1_removes:
  "newQuantity < 1 \<Longrightarrow>
   productId \<notin> set (map (\<lambda>item. product_id (product item))
                        (cart (handleUpdateCartQuantity productId newQuantity st)))"
  by (auto simp: handleUpdateCartQuantity_def handleRemoveFromCart_def toast_success_def)

section \<open>Cart Manager\<close>

text \<open>
  Claim C7. For a product with stock, \<^verbatim>\<open>handleAddToCart\<close> on a cart that has a
  line for the product adds 1 to the quantity of that line and adds no line (the cart
  keeps its length, and every other line is as it was); on a cart without a line for the
  product it appends a line with quantity 1. Two calls on an empty cart leave exactly one
  line, with quantity 2.
\<close>

theorem handleAddToCart_increments_or_inserts:
  assumes "stock_quantity p > 0"
  shows "(product_id p \<in> set (map (\<lambda>item. product_id (product item)) (cart st)) \<longrightarrow>
           length (cart (handleAddToCart p st)) = length (cart st) \<and>
           (\<forall>i < length (cart st).
              cart (handleAddToCart p st) ! i =
                (if product_id (product (cart st ! i)) = product_id p
                 then (cart st ! i)\<lparr>quantity := quantity (cart st ! i) + 1\<rparr>
                 else cart st ! i)))
       \<and> (product_id p \<notin> set (map (\<lambda>item. product_id (product item)) (cart st)) \<longrightarrow>
           cart (handleAddToCart p st) = cart st @ [\<lparr>product = p, quantity = 1\<rparr>])
       \<and> (cart st = [] \<longrightarrow>
           cart (handleAddToCart p (handleAddToCart p st)) = [\<lparr>product = p, quantity = 2\<rparr>])"
proof (intro conjI impI)
  assume "product_id p \<in> set (map (\<lambda>item. product_id (product item)) (cart st))"
  then obtain e where "find (\<lambda>item. product_id (product item) = product_id p) (cart st) = Some e"
    using find_present by blast
  then have upd: "cart (handleAddToCart p st) =
      map (\<lambda>item. if product_id (product item) = product_id p
                   then item\<lparr>quantity := quantity item + 1\<rparr> else item) (cart st)"
    using assms by (simp add: cart_handleAddToCart addToCart_updater_def)
  show "length (cart (handleAddToCart p st)) = length (cart st)"
    by (simp add: upd)
  show "\<forall>i < length (cart st).
              cart (handleAddToCart p st) ! i =
                (if product_id (product (cart st ! i)) = product_id p
                 then (cart st ! i)\<lparr>quantity := quantity (cart st ! i) + 1\<rparr>
                 else cart st ! i)"
    by (simp add: upd)
next
  assume "product_id p \<notin> set (map (\<lambda>item. product_id (product item)) (cart st))"
  then have "find (\<lambda>item. product_id (product item) = product_id p) (cart st) = None"
    by (rule find_absent)
  then show "cart (handleAddToCart p st) = cart st @ [\<lparr>product = p, quantity = 1\<rparr>]"
    using assms by (simp add: cart_handleAddToCart addToCart_updater_def)
next
  assume "cart st = []"
  then show "cart (handleAddToCart p (handleAddToCart p st)) = [\<lparr>product = p, quantity = 2\<rparr>]"
    using assms by (simp add: cart_handleAddToCart addToCart_updater_def)
qed

text \<open>Pandesal, added twice to an empty cart, and added once to a cart that holds it.\<close>

theorem handleAddToCart_increments_or_inserts_witness:
  "stock_quantity pandesal > 0
   \<and> cart (handleAddToCart pandesal (page_with [])) = [\<lparr>product = pandesal, quantity = 1\<rparr>]
   \<and> cart (handleAddToCart pandesal (handleAddToCart pandesal (page_with []))) =
       [\<lparr>product = pandesal, quantity = 2\<rparr>]
   \<and> length (cart (handleAddToCart pandesal
         (page_with [\<lparr>product = ensaymada, quantity = 1\<rparr>, \<lparr>product = pandesal, quantity = 2\<rparr>]))) = 2
   \<and> cart (handleAddToCart pandesal
         (page_with [\<lparr>product = ensaymada, quantity = 1\<rparr>, \<lparr>product = pandesal, quantity = 2\<rparr>])) ! 1
       = \<lparr>product = pandesal, quantity = 3\<rparr>"
proof -
  let ?two = "page_with [\<lparr>product = ensaymada, quantity = 1\<rparr>, \<lparr>product = pandesal, quantity = 2\<rparr>]"
  have pos: "stock_quantity pandesal > 0"
    by (simp add: pandesal_def)
  have none: "cart (page_with []) = []"
    by (simp add: page_with_def)
  have two: "cart ?two = [\<lparr>product = ensaymada, quantity = 1\<rparr>, \<lparr>product = pandesal, quantity = 2\<rparr>]"
    by (simp add: page_with_def)
  have ids: "product_id pandesal = 1" "product_id ensaymada = 2"
    by (simp_all add: pandesal_def ensaymada_def)
  from handleAddToCart_increments_or_inserts [OF pos, of "page_with []"]
  have fresh: "cart (handleAddToCart pandesal (page_with [])) = [\<lparr>product = pandesal, quantity = 1\<rparr>]"
    and twice: "cart (handleAddToCart pandesal (handleAddToCart pandesal (page_with []))) =
       [\<lparr>product = pandesal, quantity = 2\<rparr>]"
    by (simp_all add: none)
  from handleAddToCart_increments_or_inserts [OF pos, of ?two]
  have len: "length (cart (handleAddToCart pandesal ?two)) = 2"
    and line: "cart (handleAddToCart pandesal ?two) ! 1 = \<lparr>product = pandesal, quantity = 3\<rparr>"
    by (simp_all add: two ids)
  show ?thesis
    using pos fresh twice len line by simp
qed

text \<open>
  Claim C10. When the cart has no line for \<open>productId\<close>,
  \<^verbatim>\<open>handleUpdateCartQuantity\<close> leaves the cart as it was for every new quantity:
  below 1 the removal finds nothing to remove (only its notice is shown), and from 1 on the
  whole page state is unchanged.
\<close>

theorem handleUpdateCartQuantity_absent_id:
  assumes "productId \<notin> set (map (\<lambda>item. product_id (product item)) (cart st))"
  shows "cart (handleUpdateCartQuantity productId newQuantity st) = cart st
       \<and> (1 \<le> newQuantity \<longrightarrow> handleUpdateCartQuantity productId newQuantity st = st)"
proof (cases "newQuantity < 1")
  case True
  then show ?thesis
    using filter_absent [OF assms]
    by (simp add: handleUpdateCartQuantity_def handleRemoveFromCart_def toast_success_def)
next
  case False
  then show ?thesis
    using map_absent [OF assms]
    by (simp add: handleUpdateCartQuantity_def)
qed

text \<open>A cart of pandesal, and quantities 4 and 0 for ensaymada, which is not in it.\<close>

theorem handleUpdateCartQuantity_absent_id_witness:
  "product_id ensaymada \<notin>
     set (map (\<lambda>item. product_id (product item)) (cart (page_with [\<lparr>product = pandesal, quantity = 2\<rparr>])))
   \<and> handleUpdateCartQuantity (product_id ensaymada) 4 (page_with [\<lparr>product = pandesal, quantity = 2\<rparr>])
       = page_with [\<lparr>product = pandesal, quantity = 2\<rparr>]
   \<and> cart (handleUpdateCartQuantity (product_id ensaymada) 0 (page_with [\<lparr>product = pandesal, quantity = 2\<rparr>]))
       = [\<lparr>product = pandesal, quantity = 2\<rparr>]"
proof -
  let ?st = "page_with [\<lparr>product = pandesal, quantity = 2\<rparr>]"
  have absent: "product_id ensaymada \<notin> set (map (\<lambda>item. product_id (product item)) (cart ?st))"
    by (simp add: page_with_def pandesal_def ensaymada_def)
  have c: "cart ?st = [\<lparr>product = pandesal, quantity = 2\<rparr>]"
    by (simp add: page_with_def)
  show ?thesis
    using absent
      handleUpdateCartQuantity_absent_id [OF absent, of 4]
      handleUpdateCartQuantity_absent_id [OF absent, of 0]
    by (simp add: c)
qed




text \<open>
  Claim C2 at a concrete input: the cart holds 2 pandesal, whose stock is 5, and
  \<^verbatim>\<open>handleUpdateCartQuantity\<close> is called with 999, as typing 999 into the
  quantity field does. The line's quantity becomes 999; it is not clamped to the stock.
\<close>

theorem handleUpdateCartQuantity_above_stock:
  "cart (page_with [\<lparr>product = pandesal, quantity = 2\<rparr>]) = [\<lparr>product = pandesal, quantity = 2\<rparr>]
   \<and> stock_quantity pandesal = 5
   \<and> cart (handleUpdateCartQuantity (product_id pandesal) 999
              (page_with [\<lparr>product = pandesal, quantity = 2\<rparr>]))
       = [\<lparr>product = pandesal, quantity = 999\<rparr>]"
  by (simp add: handleUpdateCartQuantity_def page_with_def pandesal_def)

text \<open>
  Claim C3 at concrete inputs: the cart holds the one monay in stock, so the invariant
  holds. A second \<^verbatim>\<open>handleAddToCart\<close> of the monay makes the quantity 2, and
  \<^verbatim>\<open>handleUpdateCartQuantity\<close> with 3 makes it 3: after either the quantity is
  above the stock and the invariant is broken.
\<close>

theorem cart_invariant_broken_by_add_and_update:
  "cart_invariant (cart (page_with [\<lparr>product = last_monay, quantity = 1\<rparr>]))
   \<and> cart (handleAddToCart last_monay (page_with [\<lparr>product = last_monay, quantity = 1\<rparr>]))
        = [\<lparr>product = last_monay, quantity = 2\<rparr>]
   \<and> \<not> cart_invariant
          (cart (handleAddToCart last_monay (page_with [\<lparr>product = last_monay, quantity = 1\<rparr>])))
   \<and> \<not> cart_invariant
          (cart (handleUpdateCartQuantity (product_id last_monay) 3
                   (page_with [\<lparr>product = last_monay, quantity = 1\<rparr>])))"
  by (simp add: cart_invariant_def cart_handleAddToCart addToCart_updater_def
      handleUpdateCartQuantity_def page_with_def last_monay_def)

section \<open>Pricing Calculator\<close>



section \<open>Order Submission Service\<close>

text \<open>
  Claim C5. With an empty cart, \<^verbatim>\<open>handleCheckout\<close> only shows the notice
  'Your cart is empty': whatever the backing service would answer, no request is sent to
  it, and the cart and every other cell of the page state are as they were.
\<close>

theorem handleCheckout_empty_cart:
  assumes "cart st = []"
  shows "handleCheckout createOrder orderData st =
           st\<lparr>toasts := toasts st @ [Toast_error ''Your cart is empty'']\<rparr>
       \<and> api_calls (handleCheckout createOrder orderData st) = api_calls st
       \<and> cart (handleCheckout createOrder orderData st) = cart st"
proof -
  have "handleCheckout createOrder orderData st = toast_error ''Your cart is empty'' st"
    using assms by (simp add: handleCheckout_def)
  then show ?thesis
    by (simp add: toast_error_def)
qed

text \<open>An empty cart, and a backing service that would accept the order.\<close>

theorem handleCheckout_empty_cart_witness:
  "cart (page_with []) = []
   \<and> handleCheckout (\<lambda>req. Resolved ()) to_the_pier (page_with []) =
       (page_with [])\<lparr>toasts := [Toast_error ''Your cart is empty'']\<rparr>
   \<and> api_calls (handleCheckout (\<lambda>req. Resolved ()) to_the_pier (page_with [])) = []"
proof -
  have none: "cart (page_with []) = []" and quiet: "toasts (page_with []) = []"
    and unsent: "api_calls (page_with []) = []"
    by (simp_all add: page_with_def)
  show ?thesis
    using none handleCheckout_empty_cart [OF none, of "\<lambda>req. Resolved ()" to_the_pier]
    by (simp add: quiet unsent)
qed

text \<open>
  Claim C4, as the code has it. The success callback empties the cart, closes the cart
  dialog and invalidates the query key 'orders'; the error callback changes nothing but
  the notices, where it shows the error's message, or 'Failed to place order' when the
  message is empty. So a submission with a cart that has a line sends one request built
  from the cart; when the service resolves, the cart is empty, the dialog closed and
  'orders' invalidated; when it rejects, the page state is as before the submission but
  for the notice (and the record of the request), the cart included.
\<close>

theorem handleCheckout_all_or_nothing:
  "cart (checkout_onSuccess st) = []
   \<and> showCart (checkout_onSuccess st) = False
   \<and> invalidated (checkout_onSuccess st) = invalidated st @ [''orders'']
   \<and> checkout_onError message st =
       st\<lparr>toasts := toasts st @
            [Toast_error (if message = [] then ''Failed to place order'' else message)]\<rparr>
   \<and> (cart st \<noteq> [] \<longrightarrow>
        api_calls (handleCheckout createOrder orderData st) =
          api_calls st @ [Create_order (checkout_request orderData (cart st))]
        \<and> (\<forall>order. createOrder (checkout_request orderData (cart st)) = Resolved order \<longrightarrow>
              cart (handleCheckout createOrder orderData st) = []
              \<and> showCart (handleCheckout createOrder orderData st) = False
              \<and> invalidated (handleCheckout createOrder orderData st) = invalidated st @ [''orders''])
        \<and> (\<forall>failure. createOrder (checkout_request orderData (cart st)) = Rejected failure \<longrightarrow>
              handleCheckout createOrder orderData st =
                st\<lparr>toasts := toasts st @
                       [Toast_error (if failure = [] then ''Failed to place order'' else failure)],
                   api_calls := api_calls st @ [Create_order (checkout_request orderData (cart st))]\<rparr>
              \<and> cart (handleCheckout createOrder orderData st) = cart st))"
proof -
  have err: "checkout_onError m s =
       s\<lparr>toasts := toasts s @ [Toast_error (if m = [] then ''Failed to place order'' else m)]\<rparr>"
    for m and s :: "'a products_page"
    by (simp add: checkout_onError_def toast_error_def js_or_def)
  have submit: "handleCheckout createOrder orderData st =
      (case createOrder (checkout_request orderData (cart st)) of
         Resolved order \<Rightarrow>
           checkout_onSuccess
             (st\<lparr>api_calls := api_calls st @ [Create_order (checkout_request orderData (cart st))]\<rparr>)
       | Rejected failure \<Rightarrow>
           checkout_onError failure
             (st\<lparr>api_calls := api_calls st @ [Create_order (checkout_request orderData (cart st))]\<rparr>))"
    if "cart st \<noteq> []"
    using that by (simp add: handleCheckout_def checkoutMutation_mutate_def Let_def)
  have sent: "api_calls (handleCheckout createOrder orderData st) =
          api_calls st @ [Create_order (checkout_request orderData (cart st))]"
    if "cart st \<noteq> []"
    by (simp add: submit [OF that] err checkout_onSuccess_fields split: settled.split)
  have resolved: "cart (handleCheckout createOrder orderData st) = []
              \<and> showCart (handleCheckout createOrder orderData st) = False
              \<and> invalidated (handleCheckout createOrder orderData st) = invalidated st @ [''orders'']"
    if "cart st \<noteq> []" and "createOrder (checkout_request orderData (cart st)) = Resolved order"
    for order
    using that(2) by (simp add: submit [OF that(1)] checkout_onSuccess_fields)
  have rejected: "handleCheckout createOrder orderData st =
                st\<lparr>toasts := toasts st @
                       [Toast_error (if failure = [] then ''Failed to place order'' else failure)],
                   api_calls := api_calls st @ [Create_order (checkout_request orderData (cart st))]\<rparr>
              \<and> cart (handleCheckout createOrder orderData st) = cart st"
    if "cart st \<noteq> []" and "createOrder (checkout_request orderData (cart st)) = Rejected failure"
    for failure
    using that(2) by (simp add: submit [OF that(1)] err)
  show ?thesis
    using err sent resolved rejected by (simp add: checkout_onSuccess_fields)
qed

text \<open>
  The cart of 3 pandesal and 2 ensaymada, submitted to a service that accepts the order,
  and to one that rejects it with 'Insufficient stock'.
\<close>

theorem handleCheckout_all_or_nothing_witness:
  "cart (page_with [\<lparr>product = pandesal, quantity = 3\<rparr>, \<lparr>product = ensaymada, quantity = 2\<rparr>]) \<noteq> []
   \<and> cart (handleCheckout (\<lambda>req. Resolved ()) to_the_pier
        (page_with [\<lparr>product = pandesal, quantity = 3\<rparr>, \<lparr>product = ensaymada, quantity = 2\<rparr>])) = []
   \<and> showCart (handleCheckout (\<lambda>req. Resolved ()) to_the_pier
        (page_with [\<lparr>product = pandesal, quantity = 3\<rparr>, \<lparr>product = ensaymada, quantity = 2\<rparr>])) = False
   \<and> invalidated (handleCheckout (\<lambda>req. Resolved ()) to_the_pier
        (page_with [\<lparr>product = pandesal, quantity = 3\<rparr>, \<lparr>product = ensaymada, quantity = 2\<rparr>])) = [''orders'']
   \<and> cart (handleCheckout (\<lambda>req. Rejected ''Insufficient stock'' :: unit settled) to_the_pier
        (page_with [\<lparr>product = pandesal, quantity = 3\<rparr>, \<lparr>product = ensaymada, quantity = 2\<rparr>]))
       = [\<lparr>product = pandesal, quantity = 3\<rparr>, \<lparr>product = ensaymada, quantity = 2\<rparr>]
   \<and> toasts (handleCheckout (\<lambda>req. Rejected ''Insufficient stock'' :: unit settled) to_the_pier
        (page_with [\<lparr>product = pandesal, quantity = 3\<rparr>, \<lparr>product = ensaymada, quantity = 2\<rparr>]))
       = [Toast_error ''Insufficient stock'']"
proof -
  let ?st = "page_with [\<lparr>product = pandesal, quantity = 3\<rparr>, \<lparr>product = ensaymada, quantity = 2\<rparr>]"
  have ne: "cart ?st \<noteq> []"
    by (simp add: page_with_def)
  have c: "cart ?st = [\<lparr>product = pandesal, quantity = 3\<rparr>, \<lparr>product = ensaymada, quantity = 2\<rparr>]"
    and i: "invalidated ?st = []" and t: "toasts ?st = []"
    by (simp_all add: page_with_def)
  from ne handleCheckout_all_or_nothing [of ?st "[]" "\<lambda>req. Resolved ()" to_the_pier]
  have resolved: "cart (handleCheckout (\<lambda>req. Resolved ()) to_the_pier ?st) = []
     \<and> showCart (handleCheckout (\<lambda>req. Resolved ()) to_the_pier ?st) = False
     \<and> invalidated (handleCheckout (\<lambda>req. Resolved ()) to_the_pier ?st) = [''orders'']"
    by (simp add: i)
  from ne handleCheckout_all_or_nothing
    [of ?st "[]" "\<lambda>req. Rejected ''Insufficient stock'' :: unit settled" to_the_pier]
  have rejected: "handleCheckout (\<lambda>req. Rejected ''Insufficient stock'' :: unit settled) to_the_pier ?st =
       ?st\<lparr>toasts := toasts ?st @ [Toast_error ''Insufficient stock''],
           api_calls := api_calls ?st @ [Create_order (checkout_request to_the_pier (cart ?st))]\<rparr>"
    by simp
  show ?thesis
    using ne resolved by (simp add: rejected c t)
qed

text \<open>
  Claim C4, as stated, fails where the rejection carries an empty message: the notice
  shown is 'Failed to place order', not the (empty) message of the error.
\<close>

theorem handleCheckout_empty_message_counterexample:
  "cart (page_with [\<lparr>product = pandesal, quantity = 3\<rparr>]) \<noteq> []
   \<and> toasts (handleCheckout (\<lambda>req. Rejected [] :: unit settled) to_the_pier
               (page_with [\<lparr>product = pandesal, quantity = 3\<rparr>]))
       = [Toast_error ''Failed to place order'']
   \<and> Toast_error [] \<notin> set (toasts (handleCheckout (\<lambda>req. Rejected [] :: unit settled) to_the_pier
               (page_with [\<lparr>product = pandesal, quantity = 3\<rparr>])))"
  by (simp add: handleCheckout_def checkoutMutation_mutate_def checkout_onError_def
      toast_error_def js_or_def page_with_def Let_def)

section \<open>Catalog Mutation Service\<close>

text \<open>
  Claim C9, as the code has it. \<^verbatim>\<open>handleCreateProduct\<close> never rejects for a
  missing user: it always sends one creation request, with the form's values and a baker
  email. With no signed-in user the email is the sentinel 'default@baker.com'; with a
  signed-in user it is the user's email when that is not empty, and the sentinel when it
  is empty.
\<close>

theorem handleCreateProduct_baker_email:
  "api_calls (handleCreateProduct u createProduct data st) =
     api_calls st @ [Create_product \<lparr>form_data = data, baker_email = bakerEmail u\<rparr>]
   \<and> bakerEmail None = ''default@baker.com''
   \<and> bakerEmail (Some usr) = (if email usr = [] then ''default@baker.com'' else email usr)"
proof (intro conjI)
  show "api_calls (handleCreateProduct u createProduct data st) =
     api_calls st @ [Create_product \<lparr>form_data = data, baker_email = bakerEmail u\<rparr>]"
    by (simp add: handleCreateProduct_def Let_def createProduct_onSuccess_def
        createProduct_onError_def invalidateQueries_def toast_success_def toast_error_def
        split: settled.split)
  show "bakerEmail None = ''default@baker.com''"
    by (simp add: bakerEmail_def js_or_def)
  show "bakerEmail (Some usr) = (if email usr = [] then ''default@baker.com'' else email usr)"
    by (simp add: bakerEmail_def js_or_def)
qed

text \<open>No user, and the customer Maria, each creating a product.\<close>

theorem handleCreateProduct_baker_email_witness:
  "api_calls (handleCreateProduct None (\<lambda>req. Resolved ()) () (page_with []))
     = [Create_product \<lparr>form_data = (), baker_email = ''default@baker.com''\<rparr>]
   \<and> api_calls (handleCreateProduct (Some maria) (\<lambda>req. Resolved ()) () (page_with []))
     = [Create_product \<lparr>form_data = (), baker_email = ''maria@example.com''\<rparr>]"
  using handleCreateProduct_baker_email [of None "\<lambda>req. Resolved ()" "()" "page_with []" maria]
    handleCreateProduct_baker_email [of "Some maria" "\<lambda>req. Resolved ()" "()" "page_with []" maria]
  by (simp add: page_with_def maria_def)

text \<open>
  Claim C9, as stated, fails for a signed-in user whose email is the empty string: the
  request carries the sentinel, not the user's email.
\<close>

theorem handleCreateProduct_empty_email_counterexample:
  "email nameless = []
   \<and> api_calls (handleCreateProduct (Some nameless) (\<lambda>req. Resolved ()) () (page_with []))
       = [Create_product \<lparr>form_data = (), baker_email = ''default@baker.com''\<rparr>]
   \<and> email nameless \<noteq> ''default@baker.com''"
  by (simp add: handleCreateProduct_def bakerEmail_def js_or_def createProduct_onSuccess_def
      invalidateQueries_def toast_success_def Let_def nameless_def page_with_def)

section \<open>User Administration Service\<close>

text \<open>
  Claim C8. For a user \<open>u\<close> of the store, a confirmed deactivation followed by a
  confirmed activation leaves the store with \<open>u\<close> active and every other field of
  \<open>u\<close>, and every other user, as before. The page sends two requests: the
  deactivation, and an update whose data holds the active flag, set to true, and no other
  field.
\<close>

theorem deactivate_then_activate:
  assumes "store userId = Some u"
  shows "snd (handleActivateUser True service_updateUser userId
               (handleDeactivateUser True service_deactivateUser userId (pg, store)))
           = store(userId \<mapsto> u\<lparr>is_active := True\<rparr>)
       \<and> admin_calls (fst (handleActivateUser True service_updateUser userId
               (handleDeactivateUser True service_deactivateUser userId (pg, store))))
           = admin_calls pg @ [Deactivate_user userId, Update_user userId only_is_active_true]
       \<and> only_is_active_true =
           \<lparr>set_full_name = None, set_email = None, set_username = None, set_role = None,
            set_phone = None, set_address = None, set_is_active = Some True\<rparr>"
proof -
  let ?off = "handleDeactivateUser True service_deactivateUser userId (pg, store)"
  have off_store: "snd ?off = store(userId \<mapsto> u\<lparr>is_active := False\<rparr>)"
    using assms
    by (simp add: handleDeactivateUser_def deactivateUserMutation_mutate_def
        service_deactivateUser_def Let_def)
  have off_calls: "admin_calls (fst ?off) = admin_calls pg @ [Deactivate_user userId]"
    using assms
    by (simp add: handleDeactivateUser_def deactivateUserMutation_mutate_def
        service_deactivateUser_def deactivateUser_onSuccess_def Let_def)
  have restored: "apply_partial only_is_active_true (u\<lparr>is_active := False\<rparr>) = u\<lparr>is_active := True\<rparr>"
    by (simp add: apply_partial_def only_is_active_true_def)
  obtain pg1 store1 where off: "?off = (pg1, store1)"
    by (cases ?off)
  have s1: "store1 = store(userId \<mapsto> u\<lparr>is_active := False\<rparr>)"
    and c1: "admin_calls pg1 = admin_calls pg @ [Deactivate_user userId]"
    using off_store off_calls by (simp_all add: off)
  have on_store: "snd (handleActivateUser True service_updateUser userId (pg1, store1))
      = store(userId \<mapsto> u\<lparr>is_active := True\<rparr>)"
    by (simp add: handleActivateUser_def updateUserMutation_mutate_def service_updateUser_def
        Let_def s1 restored)
  have on_calls: "admin_calls (fst (handleActivateUser True service_updateUser userId (pg1, store1)))
      = admin_calls pg @ [Deactivate_user userId, Update_user userId only_is_active_true]"
    by (simp add: handleActivateUser_def updateUserMutation_mutate_def service_updateUser_def
        updateUser_onSuccess_def Let_def s1 c1)
  show ?thesis
    using on_store on_calls by (simp add: off only_is_active_true_def)
qed

text \<open>The baker Ana, in a store of two users, deactivated and activated again.\<close>

theorem deactivate_then_activate_witness:
  "bakery_users 21 = Some ana
   \<and> snd (handleActivateUser True service_updateUser 21
            (handleDeactivateUser True service_deactivateUser 21 (empty_dashboard, bakery_users)))
       = bakery_users
   \<and> admin_calls (fst (handleActivateUser True service_updateUser 21
            (handleDeactivateUser True service_deactivateUser 21 (empty_dashboard, bakery_users))))
       = [Deactivate_user 21, Update_user 21 only_is_active_true]"
proof -
  have there: "bakery_users 21 = Some ana"
    by (simp add: bakery_users_def)
  have active: "ana\<lparr>is_active := True\<rparr> = ana"
    by (simp add: ana_def)
  have same: "bakery_users(21 \<mapsto> ana\<lparr>is_active := True\<rparr>) = bakery_users"
    by (simp add: active bakery_users_def fun_eq_iff)
  have quiet: "admin_calls empty_dashboard = []"
    by (simp add: empty_dashboard_def)
  show ?thesis
    using there deactivate_then_activate [of bakery_users 21 ana empty_dashboard]
    by (simp add: same quiet)
qed

end
